theory Spec2Isabelle
  imports Complex_Main
begin

unbundle bit_operations_syntax

section \<open>Churn feature engineering: data model\<close>

text \<open>
  The notebook \<^verbatim>\<open>01_feature_engineering.py\<close> reads a customer table, derives a
  count of optional services, cleans a few columns, writes a label table with a
  train/validate/test split and a feature table, and registers an on-demand function.

  A cell of a table is null, a text or a number. Python floats and Spark doubles are
  modelled as real numbers (no rounding, no NaN); a timestamp is the number of seconds
  since the epoch.
\<close>

datatype cell = Null | Str string | Num real

type_synonym row = "string \<rightharpoonup> cell"

text \<open>Exceptions are values: \<open>Inl\<close> of an error is a raise that nothing caught.\<close>

datatype error =
    AnalysisException string
  | KeyError string
  | TypeError string
  | ValueError string
  | ResourceDoesNotExist string
  | ZeroDivisionError

definition bind_result :: "error + 'a \<Rightarrow> ('a \<Rightarrow> error + 'b) \<Rightarrow> error + 'b" where
  "bind_result m f = (case m of Inl e \<Rightarrow> Inl e | Inr x \<Rightarrow> f x)"

text \<open>The constants of the notebook (lines 62-65 and 165).\<close>

definition primary_key :: string where
  "primary_key = ''customer_id''"

definition timestamp_col :: string where
  "timestamp_col = ''transaction_ts''"

definition label_col :: string where
  "label_col = ''churn''"

definition feature_table_name :: string where
  "feature_table_name = ''churn_feature_table''"

definition train_ratio :: real where
  "train_ratio = 7 / 10"

definition val_ratio :: real where
  "val_ratio = 2 / 10"

definition test_ratio :: real where
  "test_ratio = 1 / 10"

section \<open>Spark data frames\<close>

text \<open>
  A data frame has a schema (its column names, in order), per-column metadata, and
  rows laid out in partitions. A row maps the column names to cells; a column of the
  schema that a row does not map reads as null.
\<close>

record dataframe =
  columns :: "string list"
  metadata :: "string \<rightharpoonup> (string \<times> string) list"
  partitions :: "row list list"

definition cell_of :: "row \<Rightarrow> string \<Rightarrow> cell" where
  "cell_of r c = (case r c of None \<Rightarrow> Null | Some v \<Rightarrow> v)"

definition set_cell :: "string \<Rightarrow> (cell \<Rightarrow> cell) \<Rightarrow> row \<Rightarrow> row" where
  "set_cell c g r = r(c \<mapsto> g (cell_of r c))"

definition map_rows :: "(row \<Rightarrow> row) \<Rightarrow> dataframe \<Rightarrow> dataframe" where
  "map_rows f df = df\<lparr>partitions := map (map f) (partitions df)\<rparr>"

definition add_column :: "string list \<Rightarrow> string \<Rightarrow> string list" where
  "add_column cols c = (if c \<in> set cols then cols else cols @ [c])"

definition has_row :: "dataframe \<Rightarrow> nat \<Rightarrow> nat \<Rightarrow> bool" where
  "has_row df p k = (p < length (partitions df) \<and> k < length (partitions df ! p))"

definition row_at :: "dataframe \<Rightarrow> nat \<Rightarrow> nat \<Rightarrow> row" where
  "row_at df p k = partitions df ! p ! k"

text \<open>
  \<open>withColumn df colName refs f\<close>: the column expression reads the columns \<open>refs\<close>
  and computes \<open>f\<close> of their cells, row by row. An existing column of that name is
  replaced, a new one is appended. A reference the schema does not resolve raises
  \<open>AnalysisException\<close>, whatever the rows are.
\<close>

definition withColumn ::
  "dataframe \<Rightarrow> string \<Rightarrow> string list \<Rightarrow> (cell list \<Rightarrow> cell) \<Rightarrow> error + dataframe" where
  "withColumn df colName refs f =
     (case filter (\<lambda>c. c \<notin> set (columns df)) refs of
        c # _ \<Rightarrow> Inl (AnalysisException c)
      | [] \<Rightarrow>
          Inr (map_rows (\<lambda>r. r(colName \<mapsto> f (map (cell_of r) refs)))
                 (df\<lparr>columns := add_column (columns df) colName,
                     metadata := (metadata df)(colName := None)\<rparr>)))"

text \<open>\<open>select\<close> keeps the named columns, in the order given.\<close>

definition select :: "dataframe \<Rightarrow> string list \<Rightarrow> error + dataframe" where
  "select df cols =
     (case filter (\<lambda>c. c \<notin> set (columns df)) cols of
        c # _ \<Rightarrow> Inl (AnalysisException c)
      | [] \<Rightarrow>
          Inr (map_rows (\<lambda>r. r |` set cols)
                 (df\<lparr>columns := cols, metadata := metadata df |` set cols\<rparr>)))"

text \<open>\<open>drop\<close> removes a column; dropping a column that is not there does nothing.\<close>

definition drop_col :: "dataframe \<Rightarrow> string \<Rightarrow> dataframe" where
  "drop_col df c =
     map_rows (\<lambda>r. r(c := None))
       (df\<lparr>columns := removeAll c (columns df), metadata := (metadata df)(c := None)\<rparr>)"

text \<open>\<open>withMetadata\<close> changes the metadata of an existing column and no row.\<close>

definition withMetadata ::
  "dataframe \<Rightarrow> string \<Rightarrow> (string \<times> string) list \<Rightarrow> error + dataframe" where
  "withMetadata df c m =
     (if c \<in> set (columns df) then Inr (df\<lparr>metadata := (metadata df)(c \<mapsto> m)\<rparr>)
      else Inl (AnalysisException c))"

section \<open>The service count\<close>

text \<open>
  The pandas UDF of lines 78-81. For each argument column, \<open>s == "Yes"\<close> is true for
  the text \<open>Yes\<close> and false for every other value, null included; \<open>astype('double')\<close>
  turns that into 1.0 or 0.0; Python's \<open>sum\<close> adds them up from 0, left to right.
\<close>

definition eq_yes :: "cell \<Rightarrow> real" where
  "eq_yes s = (if s = Str ''Yes'' then 1 else 0)"

definition num_optional_services :: "cell list \<Rightarrow> cell" where
  "num_optional_services cols = Num (foldl (+) 0 (map eq_yes cols))"

definition service_cols :: "string list" where
  "service_cols = [''online_security'', ''online_backup'', ''device_protection'',
                   ''tech_support'', ''streaming_tv'', ''streaming_movies'']"

definition compute_service_features :: "dataframe \<Rightarrow> error + dataframe" where
  "compute_service_features inputDF =
     withColumn inputDF ''num_optional_services'' service_cols num_optional_services"

section \<open>Cleaning with the pandas API on Spark\<close>

text \<open>
  The pandas-on-Spark frame is the Spark frame seen through the pandas API: the two
  conversions change no data column. A series taken from a frame is a value per row
  of that frame.

  What the engine's casts do to a text and to a number is not part of the notebook:
  \<open>to_double\<close> is the cast of a text to a double (\<open>None\<close> where the text is not a
  number and the cast gives null), \<open>to_string\<close> the cast of a number to a text.
\<close>

record casts =
  to_double :: "string \<Rightarrow> real option"
  to_string :: "real \<Rightarrow> string"

definition pandas_api :: "dataframe \<Rightarrow> dataframe" where
  "pandas_api df = df"

definition to_spark :: "dataframe \<Rightarrow> dataframe" where
  "to_spark psdf = psdf"

definition getitem :: "dataframe \<Rightarrow> string \<Rightarrow> error + (row \<Rightarrow> cell)" where
  "getitem psdf c =
     (if c \<in> set (columns psdf) then Inr (\<lambda>r. cell_of r c) else Inl (KeyError c))"

definition setitem :: "dataframe \<Rightarrow> string \<Rightarrow> (row \<Rightarrow> cell) \<Rightarrow> dataframe" where
  "setitem psdf c s =
     map_rows (\<lambda>r. r(c \<mapsto> s r)) (psdf\<lparr>columns := add_column (columns psdf) c\<rparr>)"

text \<open>
  \<open>Series.map\<close> with a dictionary: a value equal to a key becomes that key's text
  (the first such key), every other value becomes null. The keys here are integers;
  a number equals a key by value (\<open>1.0 == 1\<close>), a text equals none.
\<close>

definition map_value :: "(int \<times> string) list \<Rightarrow> cell \<Rightarrow> cell" where
  "map_value d c =
     (case c of
        Num x \<Rightarrow> (case find (\<lambda>kv. x = of_int (fst kv)) d of
                    Some kv \<Rightarrow> Str (snd kv)
                  | None \<Rightarrow> Null)
      | _ \<Rightarrow> Null)"

definition series_map :: "(int \<times> string) list \<Rightarrow> (row \<Rightarrow> cell) \<Rightarrow> (row \<Rightarrow> cell)" where
  "series_map d s = (\<lambda>r. map_value d (s r))"

text \<open>
  \<open>astype\<close> with a dictionary of column names and dtypes. \<open>"string"\<close> is the pandas
  extension dtype, under which a null stays null. A key that is not a column raises
  \<open>KeyError\<close>.
\<close>

definition cast_cell :: "casts \<Rightarrow> string \<Rightarrow> cell \<Rightarrow> cell" where
  "cast_cell cs dtype c =
     (if dtype = ''double'' then
        (case c of
           Null \<Rightarrow> Null
         | Num x \<Rightarrow> Num x
         | Str s \<Rightarrow> (case to_double cs s of None \<Rightarrow> Null | Some x \<Rightarrow> Num x))
      else if dtype = ''string'' then
        (case c of
           Null \<Rightarrow> Null
         | Num x \<Rightarrow> Str (to_string cs x)
         | Str s \<Rightarrow> Str s)
      else c)"

fun astype :: "casts \<Rightarrow> dataframe \<Rightarrow> (string \<times> string) list \<Rightarrow> error + dataframe" where
  "astype cs psdf [] = Inr psdf"
| "astype cs psdf ((c, dtype) # rest) =
     (if c \<notin> set (columns psdf) then Inl (KeyError c)
      else if dtype \<noteq> ''double'' \<and> dtype \<noteq> ''string'' then Inl (TypeError dtype)
      else astype cs (map_rows (set_cell c (cast_cell cs dtype)) psdf) rest)"

text \<open>
  \<open>fillna\<close> with a dictionary: in each named column a null becomes the given number;
  a key that is not a column is ignored.
\<close>

definition fill_row :: "string list \<Rightarrow> string \<times> real \<Rightarrow> row \<Rightarrow> row" where
  "fill_row cols cv r =
     (if fst cv \<in> set cols \<and> cell_of r (fst cv) = Null then r(fst cv \<mapsto> Num (snd cv))
      else r)"

definition fill_column :: "dataframe \<Rightarrow> string \<times> real \<Rightarrow> dataframe" where
  "fill_column psdf cv = map_rows (fill_row (columns psdf) cv) psdf"

definition fillna :: "dataframe \<Rightarrow> (string \<times> real) list \<Rightarrow> dataframe" where
  "fillna psdf values = foldl fill_column psdf values"

text \<open>Lines 99-121.\<close>

definition clean_churn_features :: "casts \<Rightarrow> dataframe \<Rightarrow> error + dataframe" where
  "clean_churn_features cs dataDF =
     (let data_psdf = pandas_api dataDF in
      bind_result (getitem data_psdf ''senior_citizen'') (\<lambda>senior.
      let data_psdf = setitem data_psdf ''senior_citizen''
                        (series_map [(1, ''Yes''), (0, ''No'')] senior) in
      bind_result (astype cs data_psdf
                     [(''total_charges'', ''double''), (''senior_citizen'', ''string'')])
        (\<lambda>data_psdf.
      let data_psdf = fillna data_psdf [(''tenure'', 0)];
          data_psdf = fillna data_psdf [(''monthly_charges'', 0)];
          data_psdf = fillna data_psdf [(''total_charges'', 0)];
          data_cleanDF = to_spark data_psdf in
      bind_result (withMetadata data_cleanDF primary_key
                     [(''spark.contentAnnotation.semanticType'', ''native'')])
        (\<lambda>data_cleanDF.
      withMetadata data_cleanDF ''num_optional_services''
        [(''spark.contentAnnotation.semanticType'', ''numeric'')]))))"

section \<open>The engine's random column\<close>

text \<open>
  \<open>F.rand(seed)\<close> takes no column: Spark evaluates it partition by partition, with
  one generator per partition, started from \<open>seed + partitionIndex\<close>, and one
  \<open>nextDouble\<close> per row in the order the rows come. The generator is Spark's
  \<open>XORShiftRandom\<close>: the start value is hashed with Scala's \<open>MurmurHash3.bytesHash\<close>,
  and each step is three shift-and-xor operations on a 64-bit state. Java's \<open>int\<close> and
  \<open>long\<close> are integers with the wrap-around written out (\<open>w32\<close>, \<open>w64\<close>), read
  as unsigned bit patterns.
\<close>

definition w32 :: "int \<Rightarrow> int" where
  "w32 x = x mod 2 ^ 32"

definition w64 :: "int \<Rightarrow> int" where
  "w64 x = x mod 2 ^ 64"

definition rotl :: "int \<Rightarrow> nat \<Rightarrow> int" where
  "rotl x r = w32 (push_bit r x) OR drop_bit (32 - r) x"

definition mixLast :: "int \<Rightarrow> int \<Rightarrow> int" where
  "mixLast hash data = hash XOR w32 (rotl (w32 (data * 0xcc9e2d51)) 15 * 0x1b873593)"

definition mix :: "int \<Rightarrow> int \<Rightarrow> int" where
  "mix hash data = w32 (rotl (mixLast hash data) 13 * 5 + 0xe6546b64)"

definition avalanche :: "int \<Rightarrow> int" where
  "avalanche hash =
     (let h = hash XOR drop_bit 16 hash;
          h = w32 (h * 0x85ebca6b);
          h = h XOR drop_bit 13 h;
          h = w32 (h * 0xc2b2ae35)
      in h XOR drop_bit 16 h)"

text \<open>The body reads four bytes at a time, least significant first; then the tail.\<close>

fun hash_body :: "int list \<Rightarrow> int \<Rightarrow> int" where
  "hash_body (b0 # b1 # b2 # b3 # rest) h =
     hash_body rest (mix h (b0 OR push_bit 8 b1 OR push_bit 16 b2 OR push_bit 24 b3))"
| "hash_body [b0, b1, b2] h = mixLast h (push_bit 16 b2 XOR push_bit 8 b1 XOR b0)"
| "hash_body [b0, b1] h = mixLast h (push_bit 8 b1 XOR b0)"
| "hash_body [b0] h = mixLast h b0"
| "hash_body [] h = h"

definition bytesHash :: "int list \<Rightarrow> int \<Rightarrow> int" where
  "bytesHash data seed = avalanche (hash_body data seed XOR int (length data))"

text \<open>The eight bytes of a \<open>long\<close>, most significant first (\<open>ByteBuffer.putLong\<close>).\<close>

definition long_bytes :: "int \<Rightarrow> int list" where
  "long_bytes x = map (\<lambda>i. drop_bit (8 * i) x mod 256) [7, 6, 5, 4, 3, 2, 1, 0]"

definition hashSeed :: "int \<Rightarrow> int" where
  "hashSeed seed =
     (let bytes = long_bytes seed;
          lowBits = bytesHash bytes 0x3c074a61;
          highBits = bytesHash bytes lowBits
      in push_bit 32 highBits OR lowBits)"

text \<open>\<open>next(bits)\<close> returns the low bits of the new state, and the new state.\<close>

definition next_bits :: "nat \<Rightarrow> int \<Rightarrow> int \<times> int" where
  "next_bits bits seed =
     (let nextSeed = seed XOR w64 (push_bit 21 seed);
          nextSeed = nextSeed XOR drop_bit 35 nextSeed;
          nextSeed = nextSeed XOR w64 (push_bit 4 nextSeed)
      in (nextSeed mod 2 ^ bits, nextSeed))"

definition nextDouble :: "int \<Rightarrow> real \<times> int" where
  "nextDouble seed =
     (let (a, seed) = next_bits 26 seed;
          (b, seed) = next_bits 27 seed
      in (real_of_int (push_bit 27 a + b) / 2 ^ 53, seed))"

text \<open>The first \<open>n\<close> draws of a generator in state \<open>seed\<close>.\<close>

fun draws :: "int \<Rightarrow> nat \<Rightarrow> real list" where
  "draws seed 0 = []"
| "draws seed (Suc n) = (case nextDouble seed of (x, seed') \<Rightarrow> x # draws seed' n)"

definition partition_draws :: "int \<Rightarrow> nat \<Rightarrow> nat \<Rightarrow> real list" where
  "partition_draws seed p n = draws (hashSeed (w64 (seed + int p))) n"

text \<open>The draw that the row at position \<open>k\<close> of partition \<open>p\<close> gets.\<close>

definition row_draw :: "int \<Rightarrow> nat \<Rightarrow> nat \<Rightarrow> real" where
  "row_draw seed p k = partition_draws seed p (Suc k) ! k"

definition withColumn_rand :: "dataframe \<Rightarrow> string \<Rightarrow> int \<Rightarrow> dataframe" where
  "withColumn_rand df colName seed =
     df\<lparr>columns := add_column (columns df) colName,
        metadata := (metadata df)(colName := None),
        partitions :=
          map (\<lambda>(p, part).
                 map (\<lambda>(r, x). r(colName \<mapsto> Num x))
                   (zip part (partition_draws seed p (length part))))
            (enumerate 0 (partitions df))\<rparr>"

section \<open>The on-demand function \<open>avg_price_increase\<close>\<close>

text \<open>
  Python's \<open>/\<close> on floats raises \<open>ZeroDivisionError\<close> for a zero divisor; the body of
  the registered function (lines 300-303) is an \<open>if\<close> around one such division.
\<close>

definition truediv :: "real \<Rightarrow> real \<Rightarrow> error + real" where
  "truediv a b = (if b = 0 then Inl ZeroDivisionError else Inr (a / b))"

definition avg_price_increase :: "real \<Rightarrow> real \<Rightarrow> real \<Rightarrow> error + real" where
  "avg_price_increase monthly_charges_in tenure_in total_charges_in =
     (if tenure_in > 0
      then bind_result (truediv total_charges_in tenure_in)
             (\<lambda>q. Inr (monthly_charges_in - q))
      else Inr 0)"

section \<open>The split rule\<close>

text \<open>
  The \<open>when\<close> chain of lines 170-172 over the cell of the \<open>random\<close> column. A
  comparison with a null is null, which \<open>when\<close> treats as not satisfied, so a null
  falls through to \<open>otherwise\<close>.
\<close>

definition lt_lit :: "cell \<Rightarrow> real \<Rightarrow> bool" where
  "lt_lit c x = (case c of Num r \<Rightarrow> r < x | _ \<Rightarrow> False)"

definition split_when :: "real \<Rightarrow> real \<Rightarrow> cell \<Rightarrow> cell" where
  "split_when train val random =
     (if lt_lit random train then Str ''train''
      else if lt_lit random (train + val) then Str ''validate''
      else Str ''test'')"

section \<open>The label table\<close>

text \<open>
  Lines 167-173: the frame that is written as the label table. The column expression
  of \<open>split\<close> reads the one column \<open>random\<close>.
\<close>

definition unary :: "(cell \<Rightarrow> cell) \<Rightarrow> cell list \<Rightarrow> cell" where
  "unary f cs = (case cs of [c] \<Rightarrow> f c | _ \<Rightarrow> Null)"

definition label_table :: "dataframe \<Rightarrow> error + dataframe" where
  "label_table churn_features_n_predsDF =
     bind_result (select churn_features_n_predsDF [primary_key, timestamp_col, label_col])
       (\<lambda>selected.
     let with_random = withColumn_rand selected ''random'' 42 in
     bind_result (withColumn with_random ''split'' [''random'']
                    (unary (split_when train_ratio val_ratio)))
       (\<lambda>with_split. Inr (drop_col with_split ''random'')))"

text \<open>
  What a reader of the label table sees of the row at position \<open>k\<close> of partition
  \<open>p\<close>: its primary key and its split.
\<close>

definition key_and_split :: "error + dataframe \<Rightarrow> nat \<Rightarrow> nat \<Rightarrow> (cell \<times> cell) option" where
  "key_and_split labels p k =
     (case labels of
        Inl e \<Rightarrow> None
      | Inr out \<Rightarrow>
          if has_row out p k
          then Some (cell_of (row_at out p k) primary_key, cell_of (row_at out p k) ''split'')
          else None)"

text \<open>Line 178: the frame handed to the feature store.\<close>

definition churn_featuresDF :: "dataframe \<Rightarrow> dataframe" where
  "churn_featuresDF churn_features_n_predsDF = drop_col churn_features_n_predsDF label_col"

section \<open>The catalog and the services\<close>

text \<open>
  The state outside the notebook: the tables of the catalog, each with its columns,
  rows, NOT NULL columns and primary-key constraint; the names the feature store and
  the online-table service know; and what was printed. The names \<open>catalog\<close>, \<open>db\<close>
  and \<open>advanced_label_table_name\<close> come from the setup notebook, which is not part of
  this file: they are parameters.
\<close>

record table_info =
  t_columns :: "string list"
  t_rows :: "row list"
  t_not_null :: "string list"
  t_primary_key :: "(string \<times> string list) option"

record world =
  tables :: "string \<rightharpoonup> table_info"
  feature_tables :: "string set"
  online_tables :: "string set"
  printed :: "string list"

record config =
  catalog :: string
  db :: string
  advanced_label_table_name :: string

definition full_name :: "config \<Rightarrow> string \<Rightarrow> string" where
  "full_name cfg name = catalog cfg @ ''.'' @ db cfg @ ''.'' @ name"

text \<open>
  A statement of the notebook takes the state and gives the state it leaves behind,
  with its value or the exception it raised: what a statement did before it raised
  stays done.
\<close>

type_synonym 'a action = "world \<Rightarrow> (error + 'a) \<times> world"

definition return_value :: "'a \<Rightarrow> 'a action" where
  "return_value x w = (Inr x, w)"

definition raise :: "error \<Rightarrow> 'a action" where
  "raise e w = (Inl e, w)"

definition and_then :: "'a action \<Rightarrow> ('a \<Rightarrow> 'b action) \<Rightarrow> 'b action" where
  "and_then m f w = (case m w of (Inl e, w') \<Rightarrow> (Inl e, w') | (Inr x, w') \<Rightarrow> f x w')"

definition print_line :: "string \<Rightarrow> unit action" where
  "print_line s w = (Inr (), w\<lparr>printed := printed w @ [s]\<rparr>)"

text \<open>
  \<open>try: body except E as e: handler\<close>: an exception of the body that the clause
  matches runs the handler; any other exception propagates.
\<close>

definition try_except ::
  "unit action \<Rightarrow> (error \<Rightarrow> bool) \<Rightarrow> (error \<Rightarrow> unit action) \<Rightarrow> unit action" where
  "try_except body catches handler w =
     (case body w of
        (Inr x, w') \<Rightarrow> (Inr x, w')
      | (Inl e, w') \<Rightarrow> if catches e then handler e w' else (Inl e, w'))"

text \<open>Every error of this model is a Python \<open>Exception\<close>.\<close>

definition is_Exception :: "error \<Rightarrow> bool" where
  "is_Exception e = True"

definition is_ValueError :: "error \<Rightarrow> bool" where
  "is_ValueError e = (case e of ValueError _ \<Rightarrow> True | _ \<Rightarrow> False)"

definition error_text :: "error \<Rightarrow> string" where
  "error_text e =
     (case e of
        AnalysisException s \<Rightarrow> s | KeyError s \<Rightarrow> s | TypeError s \<Rightarrow> s
      | ValueError s \<Rightarrow> s | ResourceDoesNotExist s \<Rightarrow> s
      | ZeroDivisionError \<Rightarrow> ''division by zero'')"

text \<open>
  The online-table service: \<open>get\<close> and \<open>delete\<close> raise for a name the service does
  not know.
\<close>

definition online_tables_get :: "string \<Rightarrow> string action" where
  "online_tables_get name w =
     (if name \<in> online_tables w then (Inr name, w) else (Inl (ResourceDoesNotExist name), w))"

definition online_tables_delete :: "string \<Rightarrow> unit action" where
  "online_tables_delete name w =
     (if name \<in> online_tables w then (Inr (), w\<lparr>online_tables := online_tables w - {name}\<rparr>)
      else (Inl (ResourceDoesNotExist name), w))"

text \<open>Lines 234-243.\<close>

definition drop_online_table :: "config \<Rightarrow> unit action" where
  "drop_online_table cfg =
     try_except
       (and_then (online_tables_get (full_name cfg feature_table_name @ ''_online_table''))
          (\<lambda>online_table_specs.
        and_then (online_tables_delete (full_name cfg feature_table_name @ ''_online_table''))
          (\<lambda>_.
        print_line (''Dropping online feature table: ''
                    @ full_name cfg feature_table_name @ ''_online_table''))))
       is_Exception
       (\<lambda>e. print_line (error_text e))"

text \<open>
  The feature-store client: \<open>drop_table\<close> raises \<open>ValueError\<close> for a table the store
  does not know, which is what the handler of lines 259-261 reports.
\<close>

definition fe_drop_table :: "string \<Rightarrow> unit action" where
  "fe_drop_table name w =
     (if name \<in> feature_tables w then (Inr (), w\<lparr>feature_tables := feature_tables w - {name}\<rparr>)
      else (Inl (ValueError name), w))"

text \<open>
  The SQL statements the notebook issues. \<open>SET NOT NULL\<close> is refused for a column
  that holds a null; a primary key is refused on a column that is not NOT NULL and
  on a table that has one.
\<close>

datatype sql =
    DropTableIfExists string
  | AlterColumnSetNotNull string string
  | AddPrimaryKey string string "string list"

definition spark_sql :: "sql \<Rightarrow> unit action" where
  "spark_sql stmt w =
     (case stmt of
        DropTableIfExists t \<Rightarrow> (Inr (), w\<lparr>tables := (tables w)(t := None)\<rparr>)
      | AlterColumnSetNotNull t c \<Rightarrow>
          (case tables w t of
             None \<Rightarrow> (Inl (AnalysisException t), w)
           | Some info \<Rightarrow>
               if c \<notin> set (t_columns info) then (Inl (AnalysisException c), w)
               else if list_ex (\<lambda>r. cell_of r c = Null) (t_rows info)
               then (Inl (AnalysisException c), w)
               else (Inr (), w\<lparr>tables := (tables w)
                              (t \<mapsto> info\<lparr>t_not_null := add_column (t_not_null info) c\<rparr>)\<rparr>))
      | AddPrimaryKey t name cols \<Rightarrow>
          (case tables w t of
             None \<Rightarrow> (Inl (AnalysisException t), w)
           | Some info \<Rightarrow>
               if t_primary_key info \<noteq> None then (Inl (AnalysisException name), w)
               else (case filter (\<lambda>c. c \<notin> set (t_not_null info)) cols of
                       c # _ \<Rightarrow> (Inl (AnalysisException c), w)
                     | [] \<Rightarrow>
                         (Inr (), w\<lparr>tables := (tables w)
                                   (t \<mapsto> info\<lparr>t_primary_key := Some (name, cols)\<rparr>)\<rparr>))))"

text \<open>Lines 249-261.\<close>

definition drop_feature_table :: "config \<Rightarrow> unit action" where
  "drop_feature_table cfg =
     try_except
       (and_then (fe_drop_table (full_name cfg feature_table_name))
          (\<lambda>_.
        and_then (spark_sql (DropTableIfExists (full_name cfg feature_table_name)))
          (\<lambda>_.
        print_line (''Dropping Feature Table '' @ full_name cfg feature_table_name))))
       is_ValueError
       (\<lambda>ve. print_line (''Feature Table '' @ full_name cfg feature_table_name
                           @ '' doesn't exist''))"

text \<open>
  Lines 174-176: \<open>mode("overwrite")\<close> with \<open>overwriteSchema\<close> replaces the table, its
  schema included, by the frame. An error in computing the frame is raised before
  anything is written.
\<close>

definition saveAsTable :: "dataframe \<Rightarrow> string \<Rightarrow> unit action" where
  "saveAsTable df name w =
     (Inr (), w\<lparr>tables := (tables w)
                 (name \<mapsto> \<lparr>t_columns = columns df, t_rows = concat (partitions df),
                            t_not_null = [], t_primary_key = None\<rparr>)\<rparr>)"

definition write_label_table :: "config \<Rightarrow> dataframe \<Rightarrow> unit action" where
  "write_label_table cfg churn_features_n_predsDF =
     (case label_table churn_features_n_predsDF of
        Inl e \<Rightarrow> raise e
      | Inr labels \<Rightarrow> saveAsTable labels (full_name cfg (advanced_label_table_name cfg)))"

text \<open>Lines 187-189: the three statements on the label table.\<close>

definition add_label_constraints :: "config \<Rightarrow> unit action" where
  "add_label_constraints cfg =
     and_then (spark_sql (AlterColumnSetNotNull (full_name cfg (advanced_label_table_name cfg))
                 primary_key))
       (\<lambda>_.
     and_then (spark_sql (AlterColumnSetNotNull (full_name cfg (advanced_label_table_name cfg))
                 timestamp_col))
       (\<lambda>_.
     spark_sql (AddPrimaryKey (full_name cfg (advanced_label_table_name cfg))
                  (advanced_label_table_name cfg @ ''_pk'')
                  [primary_key, timestamp_col])))"

section \<open>Notions used in the statements\<close>

text \<open>
  The columns \<open>clean_churn_features\<close> needs, the columns whose cells it may change,
  and what it does to one row: the three conversions, then the three fills (a fill
  applies to a column of the schema \<open>cols\<close> only).
\<close>

definition clean_columns :: "string list" where
  "clean_columns = [''senior_citizen'', ''total_charges'', primary_key, ''num_optional_services'']"

definition cleaned_columns :: "string list" where
  "cleaned_columns = [''senior_citizen'', ''total_charges'', ''tenure'', ''monthly_charges'']"

definition cleaned_row :: "casts \<Rightarrow> string list \<Rightarrow> row \<Rightarrow> row" where
  "cleaned_row cs cols =
     fill_row cols (''total_charges'', 0) \<circ> fill_row cols (''monthly_charges'', 0)
     \<circ> fill_row cols (''tenure'', 0)
     \<circ> set_cell ''senior_citizen'' (cast_cell cs ''string'')
     \<circ> set_cell ''total_charges'' (cast_cell cs ''double'')
     \<circ> set_cell ''senior_citizen'' (map_value [(1, ''Yes''), (0, ''No'')])"

text \<open>A cell of a numeric column is null or a number; a cell of a text column is null
  or a text. \<open>number_or_zero\<close> reads a cell as a number, with 0 for anything else.\<close>

definition numeric :: "cell \<Rightarrow> bool" where
  "numeric c = (case c of Str _ \<Rightarrow> False | _ \<Rightarrow> True)"

definition textual :: "cell \<Rightarrow> bool" where
  "textual c = (case c of Num _ \<Rightarrow> False | _ \<Rightarrow> True)"

definition number_or_zero :: "cell \<Rightarrow> real" where
  "number_or_zero c = (case c of Num x \<Rightarrow> x | _ \<Rightarrow> 0)"

text \<open>The columns of the label table's source, and the labelled row for a draw.\<close>

definition label_columns :: "string list" where
  "label_columns = [primary_key, timestamp_col, label_col]"

definition labelled_row :: "row \<Rightarrow> real \<Rightarrow> row" where
  "labelled_row r x =
     (r |` set label_columns)(''split'' \<mapsto> split_when train_ratio val_ratio (Num x))"

section \<open>Example tables\<close>

text \<open>
  Three customers in two partitions, as they are read and as they stand after the
  service count; casts that know the one number text of the example; the same two
  label rows in one partition and in two; a configuration and an empty state.
\<close>

definition raw_columns :: "string list" where
  "raw_columns = [''customer_id'', ''senior_citizen'', ''tenure'', ''monthly_charges'',
     ''total_charges'', ''online_security'', ''online_backup'', ''device_protection'',
     ''tech_support'', ''streaming_tv'', ''streaming_movies'', ''churn'']"

definition raw_row :: "cell list \<Rightarrow> row" where
  "raw_row cells = map_of (zip raw_columns cells)"

definition customer_1 :: row where
  "customer_1 = raw_row [Str ''c1'', Num 1, Num 12, Num 30, Str ''360.5'', Str ''Yes'', Str ''No'',
                     Null, Str ''No internet service'', Str ''Yes'', Str ''Yes'', Str ''No'']"

definition customer_2 :: row where
  "customer_2 = raw_row [Str ''c2'', Num 0, Null, Null, Str '' '', Str ''No'', Str ''No'',
                     Str ''No'', Str ''No'', Str ''No'', Str ''No'', Str ''Yes'']"

definition customer_3 :: row where
  "customer_3 = raw_row [Str ''c3'', Num 2, Num 5, Num 20, Null, Str ''Yes'', Str ''Yes'',
                     Str ''Yes'', Str ''Yes'', Str ''Yes'', Str ''Yes'', Str ''No'']"

definition telcoDF :: dataframe where
  "telcoDF = \<lparr>columns = raw_columns, metadata = Map.empty,
              partitions = [[customer_1, customer_2], [customer_3]]\<rparr>"

definition featuredDF :: dataframe where
  "featuredDF =
     \<lparr>columns = raw_columns @ [''num_optional_services''], metadata = Map.empty,
      partitions = [[customer_1(''num_optional_services'' \<mapsto> Num 3),
                     customer_2(''num_optional_services'' \<mapsto> Num 0)],
                    [customer_3(''num_optional_services'' \<mapsto> Num 6)]]\<rparr>"

definition parse_example :: casts where
  "parse_example =
     \<lparr>to_double = (\<lambda>s. if s = ''360.5'' then Some (721 / 2) else None),
      to_string = (\<lambda>x. '''')\<rparr>"

definition label_row :: "string \<Rightarrow> string \<Rightarrow> row" where
  "label_row key churned =
     [primary_key \<mapsto> Str key, timestamp_col \<mapsto> Num 1700000000, label_col \<mapsto> Str churned,
      ''tenure'' \<mapsto> Num 5]"

definition one_partition :: dataframe where
  "one_partition =
     \<lparr>columns = [primary_key, timestamp_col, label_col, ''tenure''], metadata = Map.empty,
      partitions = [[label_row ''c1'' ''No'', label_row ''c2'' ''Yes'']]\<rparr>"

definition two_partitions :: dataframe where
  "two_partitions =
     \<lparr>columns = [primary_key, timestamp_col, label_col, ''tenure''], metadata = Map.empty,
      partitions = [[label_row ''c1'' ''No''], [label_row ''c2'' ''Yes'']]\<rparr>"

definition example_config :: config where
  "example_config =
     \<lparr>catalog = ''main'', db = ''dbdemos'', advanced_label_table_name = ''churn_label_table''\<rparr>"

definition empty_world :: world where
  "empty_world = \<lparr>tables = Map.empty, feature_tables = {}, online_tables = {}, printed = []\<rparr>"

section \<open>Lemmas on data frames\<close>

lemma partitions_map_rows [simp]: "partitions (map_rows f df) = map (map f) (partitions df)"
  by (simp add: map_rows_def)

lemma columns_map_rows [simp]: "columns (map_rows f df) = columns df"
  by (simp add: map_rows_def)

lemma metadata_map_rows [simp]: "metadata (map_rows f df) = metadata df"
  by (simp add: map_rows_def)

lemma has_row_map_rows [simp]: "has_row (map_rows f df) p k = has_row df p k"
  by (auto simp: has_row_def map_rows_def)

lemma row_at_map_rows: "has_row df p k \<Longrightarrow> row_at (map_rows f df) p k = f (row_at df p k)"
  by (simp add: has_row_def row_at_def map_rows_def)

lemma map_rows_map_rows: "map_rows f (map_rows g df) = map_rows (f \<circ> g) df"
  by (simp add: map_rows_def)

lemma add_column_member [simp]: "c \<in> set cols \<Longrightarrow> add_column cols c = cols"
  by (simp add: add_column_def)

lemma has_row_columns_update [simp]: "has_row (df\<lparr>columns := cs\<rparr>) p k = has_row df p k"
  by (simp add: has_row_def)

lemma has_row_metadata_update [simp]: "has_row (df\<lparr>metadata := m\<rparr>) p k = has_row df p k"
  by (simp add: has_row_def)

lemma cell_of_upd [simp]: "cell_of (r(c \<mapsto> v)) c' = (if c' = c then v else cell_of r c')"
  by (simp add: cell_of_def)

lemma cell_of_other [simp]: "c' \<noteq> c \<Longrightarrow> cell_of (r(c \<mapsto> v)) c' = cell_of r c'"
  by (simp add: cell_of_def)

lemma bind_result_Inr: "bind_result m f = Inr y \<Longrightarrow> \<exists>x. m = Inr x \<and> f x = Inr y"
  by (cases m) (simp_all add: bind_result_def)

lemma withColumn_resolved:
  assumes "set refs \<subseteq> set (columns df)"
  shows "withColumn df colName refs f =
     Inr (map_rows (\<lambda>r. r(colName \<mapsto> f (map (cell_of r) refs)))
            (df\<lparr>columns := add_column (columns df) colName,
                metadata := (metadata df)(colName := None)\<rparr>))"
proof -
  have "filter (\<lambda>c. c \<notin> set (columns df)) refs = []"
    using assms by (auto simp: filter_empty_conv)
  then show ?thesis by (simp add: withColumn_def)
qed

lemma withColumn_unresolved:
  assumes "\<not> set refs \<subseteq> set (columns df)"
  shows "\<exists>c. withColumn df colName refs f = Inl (AnalysisException c)"
proof -
  have "filter (\<lambda>c. c \<notin> set (columns df)) refs \<noteq> []"
    using assms by (auto simp: filter_empty_conv)
  then show ?thesis by (auto simp: withColumn_def split: list.splits)
qed

lemma select_resolved:
  assumes "set cols \<subseteq> set (columns df)"
  shows "select df cols =
     Inr (map_rows (\<lambda>r. r |` set cols) (df\<lparr>columns := cols, metadata := metadata df |` set cols\<rparr>))"
proof -
  have "filter (\<lambda>c. c \<notin> set (columns df)) cols = []"
    using assms by (auto simp: filter_empty_conv)
  then show ?thesis by (simp add: select_def)
qed

lemma select_unresolved:
  assumes "\<not> set cols \<subseteq> set (columns df)"
  shows "\<exists>c. select df cols = Inl (AnalysisException c)"
proof -
  have "filter (\<lambda>c. c \<notin> set (columns df)) cols \<noteq> []"
    using assms by (auto simp: filter_empty_conv)
  then show ?thesis by (auto simp: select_def split: list.splits)
qed

lemma has_row_drop_col [simp]: "has_row (drop_col df c) p k = has_row df p k"
  by (simp add: drop_col_def has_row_def map_rows_def cong: conj_cong)

lemma row_at_drop_col: "has_row df p k \<Longrightarrow> row_at (drop_col df c) p k = (row_at df p k)(c := None)"
  by (simp add: drop_col_def has_row_def row_at_def)

lemma columns_drop_col [simp]: "columns (drop_col df c) = removeAll c (columns df)"
  by (simp add: drop_col_def)

lemma withMetadata_Inr: "withMetadata df c m = Inr df' \<Longrightarrow> c \<in> set (columns df) \<and> columns df' = columns df"
  by (auto simp: withMetadata_def split: if_splits)

lemma concat_rows:
  assumes "r \<in> set (concat (partitions df))"
  shows "\<exists>p k. has_row df p k \<and> r = row_at df p k"
proof -
  from assms obtain part where part: "part \<in> set (partitions df)" and r: "r \<in> set part" by auto
  from part obtain p where p: "p < length (partitions df)" "partitions df ! p = part"
    by (auto simp: in_set_conv_nth)
  from r obtain k where k: "k < length part" "part ! k = r" by (auto simp: in_set_conv_nth)
  from p k show ?thesis by (auto simp: has_row_def row_at_def)
qed

section \<open>Lemmas on the service count\<close>

lemma foldl_eq_yes: "foldl (+) a (map eq_yes cols) = a + real (length (filter (\<lambda>c. c = Str ''Yes'') cols))"
  by (induction cols arbitrary: a) (auto simp: eq_yes_def)

lemma num_optional_services_count:
  "num_optional_services cols = Num (real (length (filter (\<lambda>c. c = Str ''Yes'') cols)))"
  by (simp add: num_optional_services_def foldl_eq_yes)

lemma length_filter_service_cols: "length (filter P service_cols) \<le> 6"
proof -
  have "length (filter P service_cols) \<le> length service_cols" by (rule length_filter_le)
  then show ?thesis by (simp add: service_cols_def)
qed

lemma compute_service_features_Inr:
  assumes "compute_service_features df = Inr df'"
  shows "df' = map_rows (\<lambda>r. r(''num_optional_services'' \<mapsto>
                  num_optional_services (map (cell_of r) service_cols)))
            (df\<lparr>columns := add_column (columns df) ''num_optional_services'',
                metadata := (metadata df)(''num_optional_services'' := None)\<rparr>)"
proof (cases "set service_cols \<subseteq> set (columns df)")
  case True
  from withColumn_resolved [OF True, of "''num_optional_services''" num_optional_services] assms
  show ?thesis by (simp add: compute_service_features_def)
next
  case False
  from withColumn_unresolved [OF False, of "''num_optional_services''" num_optional_services] assms
  show ?thesis by (auto simp: compute_service_features_def)
qed

lemma count_yes_cells:
  "length (filter (\<lambda>c. cell_of r c = Str ''Yes'') cols)
     = length (filter (\<lambda>v. v = Str ''Yes'') (map (cell_of r) cols))"
  by (simp add: length_filter_map comp_def)

section \<open>Lemmas on cleaning\<close>

lemma fillna_single: "fillna psdf [cv] = map_rows (fill_row (columns psdf) cv) psdf"
  by (simp add: fillna_def fill_column_def)

lemma columns_fillna [simp]: "columns (fillna psdf vs) = columns psdf"
  by (induction vs arbitrary: psdf) (simp_all add: fillna_def fill_column_def)

lemma setitem_map_getitem:
  assumes "c \<in> set (columns psdf)"
  shows "setitem psdf c (series_map d (\<lambda>r. cell_of r c)) = map_rows (set_cell c (map_value d)) psdf"
proof -
  have "(\<lambda>r. r(c \<mapsto> series_map d (\<lambda>r. cell_of r c) r)) = set_cell c (map_value d)"
    by (rule ext) (simp add: set_cell_def series_map_def)
  moreover have "psdf\<lparr>columns := add_column (columns psdf) c\<rparr> = psdf"
    using assms by simp
  ultimately show ?thesis by (simp add: setitem_def)
qed

lemma astype_two:
  assumes "c1 \<in> set (columns psdf)" "c2 \<in> set (columns psdf)"
    and "t1 = ''double'' \<or> t1 = ''string''" "t2 = ''double'' \<or> t2 = ''string''"
  shows "astype cs psdf [(c1, t1), (c2, t2)] =
           Inr (map_rows (set_cell c2 (cast_cell cs t2) \<circ> set_cell c1 (cast_cell cs t1)) psdf)"
  using assms by (auto simp add: map_rows_map_rows)

lemma astype_Inr_columns:
  "astype cs psdf dts = Inr psdf' \<Longrightarrow> fst ` set dts \<subseteq> set (columns psdf)"
proof (induction dts arbitrary: psdf)
  case Nil
  then show ?case by simp
next
  case (Cons a dts)
  obtain c t where a: "a = (c, t)" by (cases a)
  from Cons.prems a have c: "c \<in> set (columns psdf)"
    and r: "astype cs (map_rows (set_cell c (cast_cell cs t)) psdf) dts = Inr psdf'"
    by (auto split: if_splits)
  from Cons.IH [OF r] c a show ?case by simp
qed

lemma astype_columns: "astype cs psdf dts = Inr psdf' \<Longrightarrow> columns psdf' = columns psdf"
  by (induction dts arbitrary: psdf) (auto split: if_splits)

lemma clean_churn_features_resolved:
  assumes "set clean_columns \<subseteq> set (columns df)"
  shows "clean_churn_features cs df =
           Inr (map_rows (cleaned_row cs (columns df)) df
                  \<lparr>metadata := (metadata df)
                      (primary_key \<mapsto> [(''spark.contentAnnotation.semanticType'', ''native'')],
                       ''num_optional_services'' \<mapsto> [(''spark.contentAnnotation.semanticType'', ''numeric'')])\<rparr>)"
proof -
  have c: "''senior_citizen'' \<in> set (columns df)" "''total_charges'' \<in> set (columns df)"
    "primary_key \<in> set (columns df)" "''num_optional_services'' \<in> set (columns df)"
    using assms by (simp_all add: clean_columns_def)
  define d1 where "d1 = map_rows (set_cell ''senior_citizen'' (map_value [(1, ''Yes''), (0, ''No'')])) df"
  define d2 where "d2 = map_rows (set_cell ''senior_citizen'' (cast_cell cs ''string'')
                           \<circ> set_cell ''total_charges'' (cast_cell cs ''double'')) d1"
  define d3 where "d3 = map_rows (fill_row (columns df) (''total_charges'', 0)
     \<circ> fill_row (columns df) (''monthly_charges'', 0) \<circ> fill_row (columns df) (''tenure'', 0)) d2"
  have g: "getitem (pandas_api df) ''senior_citizen'' = Inr (\<lambda>r. cell_of r ''senior_citizen'')"
    using c by (simp add: getitem_def pandas_api_def)
  have s1: "setitem (pandas_api df) ''senior_citizen''
              (series_map [(1, ''Yes''), (0, ''No'')] (\<lambda>r. cell_of r ''senior_citizen'')) = d1"
    unfolding d1_def pandas_api_def using c(1) by (rule setitem_map_getitem)
  have cols1: "columns d1 = columns df" by (simp add: d1_def)
  have s2: "astype cs d1 [(''total_charges'', ''double''), (''senior_citizen'', ''string'')] = Inr d2"
    unfolding d2_def by (rule astype_two) (simp_all add: cols1 c)
  have cols2: "columns d2 = columns df" by (simp add: d2_def cols1)
  have s3: "fillna (fillna (fillna d2 [(''tenure'', 0)]) [(''monthly_charges'', 0)]) [(''total_charges'', 0)] = d3"
    by (simp add: fillna_single cols2 map_rows_map_rows d3_def comp_assoc)
  have cols3: "columns d3 = columns df" by (simp add: d3_def cols2)
  have s4: "bind_result (withMetadata (to_spark d3) primary_key
                     [(''spark.contentAnnotation.semanticType'', ''native'')])
        (\<lambda>data_cleanDF.
      withMetadata data_cleanDF ''num_optional_services''
        [(''spark.contentAnnotation.semanticType'', ''numeric'')])
     = Inr (d3\<lparr>metadata := (metadata d3)
                      (primary_key \<mapsto> [(''spark.contentAnnotation.semanticType'', ''native'')],
                       ''num_optional_services'' \<mapsto> [(''spark.contentAnnotation.semanticType'', ''numeric'')])\<rparr>)"
    using c by (simp add: withMetadata_def to_spark_def bind_result_def cols3)
  have d3_eq: "d3 = map_rows (cleaned_row cs (columns df)) df"
    by (simp add: d3_def d2_def d1_def map_rows_map_rows cleaned_row_def comp_assoc)
  have "clean_churn_features cs df = Inr (d3\<lparr>metadata := (metadata d3)
                      (primary_key \<mapsto> [(''spark.contentAnnotation.semanticType'', ''native'')],
                       ''num_optional_services'' \<mapsto> [(''spark.contentAnnotation.semanticType'', ''numeric'')])\<rparr>)"
    unfolding clean_churn_features_def Let_def g
    by (simp only: bind_result_def sum.case s1 s2 s3 s4 [unfolded bind_result_def])
  then show ?thesis by (simp add: d3_eq)
qed

lemma clean_churn_features_Inr_columns:
  assumes "clean_churn_features cs df = Inr df'"
  shows "set clean_columns \<subseteq> set (columns df)"
proof -
  from assms obtain senior where g: "getitem (pandas_api df) ''senior_citizen'' = Inr senior"
    and 1: "bind_result (astype cs (setitem (pandas_api df) ''senior_citizen''
                        (series_map [(1, ''Yes''), (0, ''No'')] senior))
                     [(''total_charges'', ''double''), (''senior_citizen'', ''string'')])
        (\<lambda>data_psdf.
      let data_psdf = fillna data_psdf [(''tenure'', 0)];
          data_psdf = fillna data_psdf [(''monthly_charges'', 0)];
          data_psdf = fillna data_psdf [(''total_charges'', 0)];
          data_cleanDF = to_spark data_psdf in
      bind_result (withMetadata data_cleanDF primary_key
                     [(''spark.contentAnnotation.semanticType'', ''native'')])
        (\<lambda>data_cleanDF.
      withMetadata data_cleanDF ''num_optional_services''
        [(''spark.contentAnnotation.semanticType'', ''numeric'')])) = Inr df'"
    unfolding clean_churn_features_def Let_def by (blast dest: bind_result_Inr)
  from g have sc: "''senior_citizen'' \<in> set (columns df)"
    by (auto simp: getitem_def pandas_api_def split: if_splits)
  define d1 where "d1 = setitem (pandas_api df) ''senior_citizen''
                        (series_map [(1, ''Yes''), (0, ''No'')] senior)"
  have cols1: "columns d1 = columns df"
    using sc by (simp add: d1_def setitem_def pandas_api_def)
  from 1 obtain d2 where a: "astype cs d1 [(''total_charges'', ''double''), (''senior_citizen'', ''string'')] = Inr d2"
    and 2: "bind_result (withMetadata (to_spark (fillna (fillna (fillna d2 [(''tenure'', 0)])
                 [(''monthly_charges'', 0)]) [(''total_charges'', 0)])) primary_key
                     [(''spark.contentAnnotation.semanticType'', ''native'')])
        (\<lambda>data_cleanDF.
      withMetadata data_cleanDF ''num_optional_services''
        [(''spark.contentAnnotation.semanticType'', ''numeric'')]) = Inr df'"
    unfolding d1_def [symmetric] Let_def by (blast dest: bind_result_Inr)
  from astype_Inr_columns [OF a] have tc: "''total_charges'' \<in> set (columns df)"
    by (simp add: cols1)
  have cols2: "columns d2 = columns df" using astype_columns [OF a] cols1 by simp
  define d3 where "d3 = to_spark (fillna (fillna (fillna d2 [(''tenure'', 0)])
                 [(''monthly_charges'', 0)]) [(''total_charges'', 0)])"
  have cols3: "columns d3 = columns df" by (simp add: d3_def to_spark_def cols2)
  from 2 obtain d4 where m1: "withMetadata d3 primary_key
                     [(''spark.contentAnnotation.semanticType'', ''native'')] = Inr d4"
    and m2: "withMetadata d4 ''num_optional_services''
        [(''spark.contentAnnotation.semanticType'', ''numeric'')] = Inr df'"
    unfolding d3_def [symmetric] by (blast dest: bind_result_Inr)
  from withMetadata_Inr [OF m1] withMetadata_Inr [OF m2] cols3
  have "primary_key \<in> set (columns df)" "''num_optional_services'' \<in> set (columns df)" by simp_all
  with sc tc show ?thesis by (simp add: clean_columns_def)
qed

lemma clean_churn_features_rows:
  assumes "clean_churn_features cs df = Inr df'"
  shows "columns df' = columns df"
    and "has_row df' p k = has_row df p k"
    and "has_row df p k \<Longrightarrow> row_at df' p k = cleaned_row cs (columns df) (row_at df p k)"
    and "metadata df' = (metadata df)
                      (primary_key \<mapsto> [(''spark.contentAnnotation.semanticType'', ''native'')],
                       ''num_optional_services'' \<mapsto> [(''spark.contentAnnotation.semanticType'', ''numeric'')])"
proof -
  have df': "df' = map_rows (cleaned_row cs (columns df)) df
                  \<lparr>metadata := (metadata df)
                      (primary_key \<mapsto> [(''spark.contentAnnotation.semanticType'', ''native'')],
                       ''num_optional_services'' \<mapsto> [(''spark.contentAnnotation.semanticType'', ''numeric'')])\<rparr>"
    using clean_churn_features_resolved [OF clean_churn_features_Inr_columns [OF assms], of cs] assms
    by simp
  show "columns df' = columns df" by (simp add: df')
  show "has_row df' p k = has_row df p k" by (auto simp add: df' has_row_def)
  show "has_row df p k \<Longrightarrow> row_at df' p k = cleaned_row cs (columns df) (row_at df p k)"
    by (simp add: df' has_row_def row_at_def)
  show "metadata df' = (metadata df)
                      (primary_key \<mapsto> [(''spark.contentAnnotation.semanticType'', ''native'')],
                       ''num_optional_services'' \<mapsto> [(''spark.contentAnnotation.semanticType'', ''numeric'')])"
    by (simp add: df')
qed

lemma cleaned_row_senior:
  "cleaned_row cs cols r ''senior_citizen'' =
     Some (cast_cell cs ''string'' (map_value [(1, ''Yes''), (0, ''No'')] (cell_of r ''senior_citizen'')))"
  by (simp add: cleaned_row_def fill_row_def set_cell_def)

lemma cleaned_row_tenure:
  "''tenure'' \<in> set cols \<Longrightarrow> numeric (cell_of r ''tenure'') \<Longrightarrow>
   cleaned_row cs cols r ''tenure'' = Some (Num (number_or_zero (cell_of r ''tenure'')))"
  by (auto simp add: cleaned_row_def fill_row_def set_cell_def numeric_def number_or_zero_def cell_of_def
      split: cell.splits option.splits)

lemma cleaned_row_monthly:
  "''monthly_charges'' \<in> set cols \<Longrightarrow> numeric (cell_of r ''monthly_charges'') \<Longrightarrow>
   cleaned_row cs cols r ''monthly_charges'' = Some (Num (number_or_zero (cell_of r ''monthly_charges'')))"
  by (auto simp add: cleaned_row_def fill_row_def set_cell_def numeric_def number_or_zero_def cell_of_def
      split: cell.splits option.splits)

lemma cleaned_row_total:
  "''total_charges'' \<in> set cols \<Longrightarrow>
   cleaned_row cs cols r ''total_charges'' =
     Some (Num (number_or_zero (cast_cell cs ''double'' (cell_of r ''total_charges''))))"
  by (auto simp add: cleaned_row_def fill_row_def set_cell_def number_or_zero_def cast_cell_def
      split: cell.splits option.splits)

lemma cleaned_row_other:
  "c \<notin> {''senior_citizen'', ''total_charges'', ''tenure'', ''monthly_charges''} \<Longrightarrow>
   cleaned_row cs cols r c = r c"
  by (simp add: cleaned_row_def fill_row_def set_cell_def)

section \<open>Lemmas on the generator\<close>

lemma length_draws [simp]: "length (draws s n) = n"
  by (induction n arbitrary: s) (simp_all split: prod.splits)

lemma draws_prefix: "k < n \<Longrightarrow> draws s n ! k = draws s (Suc k) ! k"
proof (induction n arbitrary: s k)
  case 0
  then show ?case by simp
next
  case (Suc n)
  obtain x s' where nd: "nextDouble s = (x, s')" by (cases "nextDouble s")
  show ?case
  proof (cases k)
    case 0
    then show ?thesis by (simp add: nd)
  next
    case (Suc j)
    with Suc.prems have "j < n" by simp
    from Suc.IH [OF this, of s'] show ?thesis by (simp add: nd Suc)
  qed
qed

lemma next_bits_range: "0 \<le> fst (next_bits bits s) \<and> fst (next_bits bits s) < 2 ^ bits"
  by (simp add: next_bits_def Let_def)

lemma nextDouble_range: "0 \<le> fst (nextDouble s) \<and> fst (nextDouble s) < 1"
proof -
  obtain a s1 where a: "next_bits 26 s = (a, s1)" by (cases "next_bits 26 s")
  obtain b s2 where b: "next_bits 27 s1 = (b, s2)" by (cases "next_bits 27 s1")
  from next_bits_range [of 26 s] a have ra: "0 \<le> a" "a < 2 ^ 26" by simp_all
  from next_bits_range [of 27 s1] b have rb: "0 \<le> b" "b < 2 ^ 27" by simp_all
  have v: "fst (nextDouble s) = real_of_int (push_bit 27 a + b) / 2 ^ 53"
    by (simp add: nextDouble_def a b)
  have "0 \<le> push_bit 27 a + b" using ra rb by (simp add: push_bit_eq_mult)
  moreover have "push_bit 27 a + b < 2 ^ 53" using ra rb by (simp add: push_bit_eq_mult)
  ultimately have "0 \<le> real_of_int (push_bit 27 a + b)"
    and "real_of_int (push_bit 27 a + b) < real_of_int (2 ^ 53)"
    by (simp_all only: of_int_0_le_iff of_int_less_iff)
  then show ?thesis by (simp add: v)
qed

lemma draws_range: "x \<in> set (draws s n) \<Longrightarrow> 0 \<le> x \<and> x < 1"
proof (induction n arbitrary: s)
  case 0
  then show ?case by simp
next
  case (Suc n)
  obtain y s' where nd: "nextDouble s = (y, s')" by (cases "nextDouble s")
  from Suc.prems nd have "x = y \<or> x \<in> set (draws s' n)" by simp
  then show ?case
  proof
    assume "x = y"
    with nextDouble_range [of s] nd show ?thesis by simp
  next
    assume "x \<in> set (draws s' n)"
    then show ?thesis by (rule Suc.IH)
  qed
qed

lemma length_partition_draws [simp]: "length (partition_draws seed p n) = n"
  by (simp add: partition_draws_def)

lemma row_draw_range: "0 \<le> row_draw seed p k \<and> row_draw seed p k < 1"
proof -
  have "row_draw seed p k \<in> set (draws (hashSeed (w64 (seed + int p))) (Suc k))"
    unfolding row_draw_def partition_draws_def by (rule nth_mem) (simp only: length_draws lessI)
  then show ?thesis by (rule draws_range)
qed

text \<open>
  The generator evaluated: the hashed start values for partitions 0 and 1 under seed
  42, and the first draws. The first two draws of partition 0 are the values
  0.6191893702253009 and 0.5096018842446481 that Spark gives for \<open>rand(seed=42)\<close> on a
  frame of one partition.
\<close>

lemma long_bytes_42: "long_bytes 42 = [0, 0, 0, 0, 0, 0, 0, 42]"
  by (simp add: long_bytes_def)

lemma long_bytes_43: "long_bytes 43 = [0, 0, 0, 0, 0, 0, 0, 43]"
  by (simp add: long_bytes_def)

lemma bytesHash_42_low: "bytesHash [0, 0, 0, 0, 0, 0, 0, 42] 0x3c074a61 = 1293464197"
  by (simp add: bytesHash_def avalanche_def mix_def mixLast_def rotl_def w32_def Let_def)

lemma bytesHash_42_high: "bytesHash [0, 0, 0, 0, 0, 0, 0, 42] 1293464197 = 940018309"
  by (simp add: bytesHash_def avalanche_def mix_def mixLast_def rotl_def w32_def Let_def)

lemma bytesHash_43_low: "bytesHash [0, 0, 0, 0, 0, 0, 0, 43] 0x3c074a61 = 2873413480"
  by (simp add: bytesHash_def avalanche_def mix_def mixLast_def rotl_def w32_def Let_def)

lemma bytesHash_43_high: "bytesHash [0, 0, 0, 0, 0, 0, 0, 43] 2873413480 = 928213814"
  by (simp add: bytesHash_def avalanche_def mix_def mixLast_def rotl_def w32_def Let_def)

lemma hashSeed_42: "hashSeed 42 = 4037347896089686661"
  unfolding hashSeed_def Let_def long_bytes_42 bytesHash_42_low bytesHash_42_high by simp

lemma hashSeed_43: "hashSeed 43 = 3986647977698840424"
  unfolding hashSeed_def Let_def long_bytes_43 bytesHash_43_low bytesHash_43_high by simp

lemma next_bits_42_1: "next_bits 26 4037347896089686661 = (41553095, 16306602561077120199)"
  by (simp add: next_bits_def Let_def w64_def)

lemma next_bits_42_2: "next_bits 27 16306602561077120199 = (31768715, 10876195137422409867)"
  by (simp add: next_bits_def Let_def w64_def)

lemma next_bits_42_3: "next_bits 26 10876195137422409867 = (34198803, 8505304527263094035)"
  by (simp add: next_bits_def Let_def w64_def)

lemma next_bits_42_4: "next_bits 27 8505304527263094035 = (73003416, 17684419192907493784)"
  by (simp add: next_bits_def Let_def w64_def)

lemma next_bits_43_1: "next_bits 26 3986647977698840424 = (53804749, 5325006674752503501)"
  by (simp add: next_bits_def Let_def w64_def)

lemma next_bits_43_2: "next_bits 27 5325006674752503501 = (44516965, 5468112675024619109)"
  by (simp add: next_bits_def Let_def w64_def)

lemma nextDouble_42_1:
  "nextDouble 4037347896089686661 = (5577162034036875 / 2 ^ 53, 10876195137422409867)"
  by (simp add: nextDouble_def next_bits_42_1 next_bits_42_2)

lemma nextDouble_42_2:
  "nextDouble 10876195137422409867 = (4590085711983000 / 2 ^ 53, 17684419192907493784)"
  by (simp add: nextDouble_def next_bits_42_3 next_bits_42_4)

lemma nextDouble_43_1:
  "nextDouble 3986647977698840424 = (7221551210907237 / 2 ^ 53, 5468112675024619109)"
  by (simp add: nextDouble_def next_bits_43_1 next_bits_43_2)

lemma row_draw_42_0_0: "row_draw 42 0 0 = 5577162034036875 / 2 ^ 53"
  by (simp add: row_draw_def partition_draws_def w64_def hashSeed_42 nextDouble_42_1)

lemma row_draw_42_0_1: "row_draw 42 0 1 = 4590085711983000 / 2 ^ 53"
  by (simp add: row_draw_def partition_draws_def w64_def hashSeed_42 nextDouble_42_1 nextDouble_42_2)

lemma row_draw_42_1_0: "row_draw 42 1 0 = 7221551210907237 / 2 ^ 53"
  by (simp add: row_draw_def partition_draws_def w64_def hashSeed_43 nextDouble_43_1)

lemma split_42_0_0: "split_when train_ratio val_ratio (Num (row_draw 42 0 0)) = Str ''train''"
  by (simp add: row_draw_42_0_0 split_when_def lt_lit_def train_ratio_def val_ratio_def)

lemma split_42_0_1: "split_when train_ratio val_ratio (Num (row_draw 42 0 1)) = Str ''train''"
  by (simp add: row_draw_42_0_1 [unfolded One_nat_def] split_when_def lt_lit_def
      train_ratio_def val_ratio_def)

lemma split_42_1_0: "split_when train_ratio val_ratio (Num (row_draw 42 1 0)) = Str ''validate''"
  by (simp add: row_draw_42_1_0 [unfolded One_nat_def] split_when_def lt_lit_def
      train_ratio_def val_ratio_def)

section \<open>Lemmas on the label table\<close>

lemma has_row_withColumn_rand [simp]: "has_row (withColumn_rand df c seed) p k = has_row df p k"
  by (auto simp: has_row_def withColumn_rand_def nth_enumerate_eq)

lemma row_at_withColumn_rand:
  assumes "has_row df p k"
  shows "row_at (withColumn_rand df c seed) p k = (row_at df p k)(c \<mapsto> Num (row_draw seed p k))"
proof -
  from assms have p: "p < length (partitions df)" and k: "k < length (partitions df ! p)"
    by (simp_all add: has_row_def)
  have "partition_draws seed p (length (partitions df ! p)) ! k = row_draw seed p k"
    unfolding row_draw_def partition_draws_def using k by (rule draws_prefix)
  then show ?thesis
    using p k by (simp add: row_at_def withColumn_rand_def nth_enumerate_eq partition_draws_def)
qed

lemma columns_withColumn_rand [simp]:
  "columns (withColumn_rand df c seed) = add_column (columns df) c"
  by (simp add: withColumn_rand_def)

lemma label_table_resolved:
  assumes "set label_columns \<subseteq> set (columns df)"
  shows "\<exists>out. label_table df = Inr out
           \<and> columns out = [primary_key, timestamp_col, label_col, ''split'']
           \<and> (\<forall>p k. has_row out p k = has_row df p k)
           \<and> (\<forall>p k. has_row df p k \<longrightarrow>
                 row_at out p k = labelled_row (row_at df p k) (row_draw 42 p k))"
proof -
  define selected where "selected = map_rows (\<lambda>r. r |` set label_columns)
      (df\<lparr>columns := label_columns, metadata := metadata df |` set label_columns\<rparr>)"
  define with_random where "with_random = withColumn_rand selected ''random'' 42"
  define with_split where "with_split =
     map_rows (\<lambda>r. r(''split'' \<mapsto> unary (split_when train_ratio val_ratio) (map (cell_of r) [''random''])))
            (with_random\<lparr>columns := add_column (columns with_random) ''split'',
                metadata := (metadata with_random)(''split'' := None)\<rparr>)"
  have s1: "select df [primary_key, timestamp_col, label_col] = Inr selected"
    unfolding selected_def label_columns_def [symmetric] using assms by (rule select_resolved)
  have c2: "columns with_random = [primary_key, timestamp_col, label_col, ''random'']"
    by (simp add: with_random_def selected_def label_columns_def add_column_def
        primary_key_def timestamp_col_def label_col_def)
  have s2: "withColumn with_random ''split'' [''random''] (unary (split_when train_ratio val_ratio))
              = Inr with_split"
    unfolding with_split_def by (rule withColumn_resolved) (simp add: c2)
  have lt: "label_table df = Inr (drop_col with_split ''random'')"
    by (simp add: label_table_def s1 bind_result_def Let_def with_random_def [symmetric] s2)
  have cols: "columns (drop_col with_split ''random'') = [primary_key, timestamp_col, label_col, ''split'']"
    by (simp add: with_split_def c2 add_column_def primary_key_def timestamp_col_def label_col_def)
  have hr: "has_row (drop_col with_split ''random'') p k = has_row df p k" for p k
    by (simp add: with_split_def with_random_def selected_def)
  have rows: "row_at (drop_col with_split ''random'') p k = labelled_row (row_at df p k) (row_draw 42 p k)"
    if h: "has_row df p k" for p k
  proof -
    have h1: "has_row selected p k" using h by (simp add: selected_def)
    have h2: "has_row with_random p k" using h1 by (simp add: with_random_def)
    have h3: "has_row with_split p k" using h2 by (simp add: with_split_def)
    have r1: "row_at selected p k = row_at df p k |` set label_columns"
      using h by (simp add: selected_def has_row_def row_at_def)
    have r2: "row_at with_random p k = (row_at df p k |` set label_columns)(''random'' \<mapsto> Num (row_draw 42 p k))"
      unfolding with_random_def by (simp add: row_at_withColumn_rand [OF h1] r1)
    have r3: "row_at with_split p k = (row_at with_random p k)(''split'' \<mapsto>
                 split_when train_ratio val_ratio (Num (row_draw 42 p k)))"
      using h2 by (simp add: with_split_def has_row_def row_at_def unary_def r2 [unfolded row_at_def])
    show ?thesis
      unfolding row_at_drop_col [OF h3] r3 r2 labelled_row_def
      by (rule ext) (simp add: label_columns_def restrict_map_def primary_key_def timestamp_col_def label_col_def)
  qed
  show ?thesis using lt cols hr rows by blast
qed

lemma label_table_Inr_columns:
  assumes "label_table df = Inr out"
  shows "set label_columns \<subseteq> set (columns df)"
proof (rule ccontr)
  assume "\<not> set label_columns \<subseteq> set (columns df)"
  then obtain c where "select df [primary_key, timestamp_col, label_col] = Inl (AnalysisException c)"
    using select_unresolved [of label_columns df] by (auto simp: label_columns_def)
  then have "label_table df = Inl (AnalysisException c)"
    by (simp add: label_table_def bind_result_def)
  with assms show False by simp
qed

lemma label_table_rows:
  assumes "label_table df = Inr out"
  shows "columns out = [primary_key, timestamp_col, label_col, ''split'']"
    and "has_row out p k = has_row df p k"
    and "has_row df p k \<Longrightarrow> row_at out p k = labelled_row (row_at df p k) (row_draw 42 p k)"
  using label_table_resolved [OF label_table_Inr_columns [OF assms]] assms by auto

lemma labelled_row_split:
  "labelled_row r x ''split'' = Some (split_when train_ratio val_ratio (Num x))"
  by (simp add: labelled_row_def)

lemma labelled_row_key: "labelled_row r x primary_key = r primary_key"
  by (simp add: labelled_row_def label_columns_def primary_key_def)

lemma key_and_split_resolved:
  assumes "set label_columns \<subseteq> set (columns df)" and "has_row df p k"
  shows "key_and_split (label_table df) p k =
           Some (cell_of (row_at df p k) primary_key,
                 split_when train_ratio val_ratio (Num (row_draw 42 p k)))"
proof -
  from label_table_resolved [OF assms(1)] obtain out where out: "label_table df = Inr out" by blast
  show ?thesis
    using assms(2)
    by (simp add: key_and_split_def out label_table_rows(2) [OF out]
        label_table_rows(3) [OF out assms(2)] cell_of_def labelled_row_split labelled_row_key)
qed

section \<open>Lemmas on the catalog\<close>

lemma and_then_Inr:
  "and_then m f w = (Inr y, w2) \<Longrightarrow> \<exists>x w1. m w = (Inr x, w1) \<and> f x w1 = (Inr y, w2)"
  by (auto simp: and_then_def split: prod.splits sum.splits)

lemma set_not_null_Inr:
  assumes "spark_sql (AlterColumnSetNotNull t c) w = (Inr u, w')"
  shows "\<exists>info. tables w t = Some info \<and> c \<in> set (t_columns info)
           \<and> \<not> list_ex (\<lambda>r. cell_of r c = Null) (t_rows info)
           \<and> w' = w\<lparr>tables := (tables w)
                      (t \<mapsto> info\<lparr>t_not_null := add_column (t_not_null info) c\<rparr>)\<rparr>"
  using assms by (auto simp: spark_sql_def split: option.splits if_splits)

lemma add_primary_key_Inr:
  assumes "spark_sql (AddPrimaryKey t name cols) w = (Inr u, w')"
  shows "\<exists>info. tables w t = Some info \<and> t_primary_key info = None
           \<and> set cols \<subseteq> set (t_not_null info)
           \<and> w' = w\<lparr>tables := (tables w) (t \<mapsto> info\<lparr>t_primary_key := Some (name, cols)\<rparr>)\<rparr>"
proof -
  from assms obtain info where i: "tables w t = Some info"
    by (auto simp: spark_sql_def split: option.splits)
  from assms i have pk: "t_primary_key info = None"
    by (cases "t_primary_key info") (simp_all add: spark_sql_def)
  from assms i pk have f: "filter (\<lambda>c. c \<notin> set (t_not_null info)) cols = []"
    and w': "w' = w\<lparr>tables := (tables w) (t \<mapsto> info\<lparr>t_primary_key := Some (name, cols)\<rparr>)\<rparr>"
    by (auto simp: spark_sql_def split: list.splits)
  from f have "set cols \<subseteq> set (t_not_null info)" by (auto simp: filter_empty_conv)
  with i pk w' show ?thesis by blast
qed

lemma write_label_table_Inr:
  assumes "write_label_table cfg df w = (Inr u, w1)"
  shows "\<exists>out. label_table df = Inr out
           \<and> w1 = w\<lparr>tables := (tables w)
                 (full_name cfg (advanced_label_table_name cfg) \<mapsto>
                    \<lparr>t_columns = columns out, t_rows = concat (partitions out),
                     t_not_null = [], t_primary_key = None\<rparr>)\<rparr>"
  using assms by (auto simp: write_label_table_def raise_def saveAsTable_def split: sum.splits)

lemma label_constraints_succeed:
  assumes out: "label_table df = Inr out"
    and keys: "\<And>p k. has_row df p k \<Longrightarrow>
                 cell_of (row_at df p k) primary_key \<noteq> Null
                 \<and> cell_of (row_at df p k) timestamp_col \<noteq> Null"
  shows "\<exists>w1 w2. write_label_table cfg df w = (Inr (), w1)
           \<and> add_label_constraints cfg w1 = (Inr (), w2)"
proof -
  let ?t = "full_name cfg (advanced_label_table_name cfg)"
  let ?i0 = "\<lparr>t_columns = columns out, t_rows = concat (partitions out),
              t_not_null = [], t_primary_key = None\<rparr>"
  let ?w1 = "w\<lparr>tables := (tables w)(?t \<mapsto> ?i0)\<rparr>"
  have w: "write_label_table cfg df w = (Inr (), ?w1)"
    by (simp add: write_label_table_def out saveAsTable_def)
  have cols: "columns out = [primary_key, timestamp_col, label_col, ''split'']"
    using out by (rule label_table_rows(1))
  have nonnull: "cell_of r primary_key \<noteq> Null \<and> cell_of r timestamp_col \<noteq> Null"
    if "r \<in> set (concat (partitions out))" for r
  proof -
    from concat_rows [OF that] obtain p k where h: "has_row out p k" and r: "r = row_at out p k"
      by blast
    from h have h': "has_row df p k" by (simp add: label_table_rows(2) [OF out])
    have "r = labelled_row (row_at df p k) (row_draw 42 p k)"
      unfolding r using out h' by (rule label_table_rows(3))
    then have "cell_of r primary_key = cell_of (row_at df p k) primary_key"
      and "cell_of r timestamp_col = cell_of (row_at df p k) timestamp_col"
      by (simp_all add: cell_of_def labelled_row_def label_columns_def primary_key_def
          timestamp_col_def)
    with keys [OF h'] show ?thesis by simp
  qed
  then have n1: "\<not> list_ex (\<lambda>r. cell_of r primary_key = Null) (concat (partitions out))"
    and n2: "\<not> list_ex (\<lambda>r. cell_of r timestamp_col = Null) (concat (partitions out))"
    unfolding list_ex_iff by blast+
  have ne: "primary_key \<noteq> timestamp_col" by (simp add: primary_key_def timestamp_col_def)
  have "fst (add_label_constraints cfg ?w1) = Inr ()"
    using n1 n2 ne
    by (simp add: add_label_constraints_def and_then_def spark_sql_def cols add_column_def)
  then have "add_label_constraints cfg ?w1 = (Inr (), snd (add_label_constraints cfg ?w1))"
    by (metis prod.collapse)
  with w show ?thesis by blast
qed

section \<open>Lemmas on the examples\<close>

lemma telcoDF_rows:
  "has_row telcoDF 0 0" "has_row telcoDF 0 (Suc 0)" "has_row telcoDF (Suc 0) 0"
  "row_at telcoDF 0 0 = customer_1" "row_at telcoDF 0 (Suc 0) = customer_2"
  "row_at telcoDF (Suc 0) 0 = customer_3"
  by (simp_all add: has_row_def row_at_def telcoDF_def)

lemma featuredDF_rows:
  "has_row featuredDF 0 0" "has_row featuredDF 0 (Suc 0)" "has_row featuredDF (Suc 0) 0"
  "row_at featuredDF 0 0 = customer_1(''num_optional_services'' \<mapsto> Num 3)"
  "row_at featuredDF 0 (Suc 0) = customer_2(''num_optional_services'' \<mapsto> Num 0)"
  "row_at featuredDF (Suc 0) 0 = customer_3(''num_optional_services'' \<mapsto> Num 6)"
  by (simp_all add: has_row_def row_at_def featuredDF_def)

lemma telcoDF_service_cols: "set service_cols \<subseteq> set (columns telcoDF)"
  by (simp add: service_cols_def telcoDF_def raw_columns_def)

lemma featuredDF_clean_columns: "set clean_columns \<subseteq> set (columns featuredDF)"
  by (simp add: clean_columns_def featuredDF_def raw_columns_def primary_key_def)

lemma customer_services:
  "map (cell_of customer_1) service_cols
     = [Str ''Yes'', Str ''No'', Null, Str ''No internet service'', Str ''Yes'', Str ''Yes'']"
  "map (cell_of customer_2) service_cols
     = [Str ''No'', Str ''No'', Str ''No'', Str ''No'', Str ''No'', Str ''No'']"
  "map (cell_of customer_3) service_cols
     = [Str ''Yes'', Str ''Yes'', Str ''Yes'', Str ''Yes'', Str ''Yes'', Str ''Yes'']"
  by (simp_all add: service_cols_def customer_1_def customer_2_def customer_3_def raw_row_def
      raw_columns_def cell_of_def)

lemma customer_billing:
  "cell_of customer_1 ''senior_citizen'' = Num 1" "cell_of customer_1 ''tenure'' = Num 12"
  "cell_of customer_1 ''monthly_charges'' = Num 30"
  "cell_of customer_1 ''total_charges'' = Str ''360.5''"
  "cell_of customer_2 ''senior_citizen'' = Num 0" "cell_of customer_2 ''tenure'' = Null"
  "cell_of customer_2 ''monthly_charges'' = Null"
  "cell_of customer_2 ''total_charges'' = Str '' ''"
  "cell_of customer_3 ''senior_citizen'' = Num 2" "cell_of customer_3 ''tenure'' = Num 5"
  "cell_of customer_3 ''monthly_charges'' = Num 20"
  "cell_of customer_3 ''total_charges'' = Null"
  "customer_1 ''churn'' = Some (Str ''No'')" "customer_1 ''customer_id'' = Some (Str ''c1'')"
  by (simp_all add: customer_1_def customer_2_def customer_3_def raw_row_def
      raw_columns_def cell_of_def)

lemma customer_counts:
  "length (filter (\<lambda>c. cell_of customer_1 c = Str ''Yes'') service_cols) = 3"
  "length (filter (\<lambda>c. cell_of customer_2 c = Str ''Yes'') service_cols) = 0"
  "length (filter (\<lambda>c. cell_of customer_3 c = Str ''Yes'') service_cols) = 6"
  by (simp_all only: count_yes_cells customer_services) simp_all

lemma featuredDF_cleaned:
  "\<exists>df'. clean_churn_features parse_example featuredDF = Inr df'"
  using clean_churn_features_resolved [OF featuredDF_clean_columns, of parse_example] by blast

lemma one_partition_columns: "set label_columns \<subseteq> set (columns one_partition)"
  by (simp add: label_columns_def one_partition_def)

lemma two_partitions_columns: "set label_columns \<subseteq> set (columns two_partitions)"
  by (simp add: label_columns_def two_partitions_def)

lemma one_partition_rows:
  "has_row one_partition 0 0" "has_row one_partition 0 1"
  "row_at one_partition 0 0 = label_row ''c1'' ''No''"
  "row_at one_partition 0 1 = label_row ''c2'' ''Yes''"
  by (simp_all add: has_row_def row_at_def one_partition_def)

lemma two_partitions_rows:
  "has_row two_partitions 0 0" "has_row two_partitions 1 0"
  "row_at two_partitions 0 0 = label_row ''c1'' ''No''"
  "row_at two_partitions 1 0 = label_row ''c2'' ''Yes''"
  by (simp_all add: has_row_def row_at_def two_partitions_def)

lemma one_partition_keys:
  assumes "has_row one_partition p k"
  shows "cell_of (row_at one_partition p k) primary_key \<noteq> Null
       \<and> cell_of (row_at one_partition p k) timestamp_col \<noteq> Null"
proof -
  from assms have "p = 0" and "k = 0 \<or> k = 1"
    by (auto simp: has_row_def one_partition_def less_Suc_eq)
  then show ?thesis
    by (auto simp: one_partition_rows one_partition_rows [unfolded One_nat_def] label_row_def
        cell_of_def primary_key_def timestamp_col_def label_col_def)
qed

section \<open>The claims\<close>

text \<open>
  C1 (as the code has it). The split of a row is the threshold label of the draw that
  the engine makes at the row's place: for the row at position \<open>k\<close> of partition
  \<open>p\<close> it is \<open>split_when\<close> of \<open>row_draw 42 p k\<close>, the \<open>k\<close>-th draw of the generator
  started from \<open>42 + p\<close>, and the row keeps its primary key. So the label is a
  function of the seed and of the place, not of the row: any two runs of the labeling
  step give the rows at the same place the same label, whatever the rows hold.
\<close>

theorem label_table_split_by_position:
  assumes "label_table df = Inr out" and "label_table df' = Inr out'"
    and "has_row df p k" and "has_row df' p k"
  shows "row_at out p k primary_key = row_at df p k primary_key
     \<and> row_at out p k ''split'' = Some (split_when train_ratio val_ratio (Num (row_draw 42 p k)))
     \<and> row_at out' p k ''split'' = row_at out p k ''split''"
  by (simp add: label_table_rows(3) [OF assms(1,3)] label_table_rows(3) [OF assms(2,4)]
      labelled_row_split labelled_row_key)

theorem label_table_split_by_position_witness:
  "\<exists>out out'. label_table one_partition = Inr out \<and> label_table two_partitions = Inr out'
     \<and> has_row one_partition 0 0 \<and> has_row two_partitions 0 0
     \<and> row_at out 0 0 primary_key = Some (Str ''c1'')
     \<and> row_at out 0 0 ''split'' = Some (Str ''train'')
     \<and> row_at out' 0 0 ''split'' = Some (Str ''train'')"
proof -
  from label_table_resolved [OF one_partition_columns]
  obtain out where out: "label_table one_partition = Inr out" by blast
  from label_table_resolved [OF two_partitions_columns]
  obtain out' where out': "label_table two_partitions = Inr out'" by blast
  from label_table_split_by_position [OF out out' one_partition_rows(1) two_partitions_rows(1)]
  show ?thesis
    using out out' one_partition_rows(1) two_partitions_rows(1)
    by (simp add: split_42_0_0 one_partition_rows(3) label_row_def primary_key_def
        timestamp_col_def label_col_def)
qed

text \<open>
  The same two rows written as one partition and as two: customer \<open>c2\<close> is the
  second row of partition 0 in the first layout (draw 0.5096..., \<open>train\<close>) and the
  first row of partition 1 in the second (draw 0.8017..., \<open>validate\<close>). The label of
  a primary key is therefore not independent of partitioning.
\<close>

theorem split_depends_on_partitioning:
  "concat (partitions one_partition) = concat (partitions two_partitions)
   \<and> key_and_split (label_table one_partition) 0 1 = Some (Str ''c2'', Str ''train'')
   \<and> key_and_split (label_table two_partitions) 1 0 = Some (Str ''c2'', Str ''validate'')"
proof -
  have same: "concat (partitions one_partition) = concat (partitions two_partitions)"
    by (simp add: one_partition_def two_partitions_def)
  have key: "cell_of (label_row ''c2'' ''Yes'') primary_key = Str ''c2''"
    by (simp add: label_row_def cell_of_def primary_key_def timestamp_col_def label_col_def)
  have a: "key_and_split (label_table one_partition) 0 1 = Some (Str ''c2'', Str ''train'')"
    unfolding key_and_split_resolved [OF one_partition_columns one_partition_rows(2)]
      one_partition_rows(4) key split_42_0_1 by (rule refl)
  have b: "key_and_split (label_table two_partitions) 1 0 = Some (Str ''c2'', Str ''validate'')"
    unfolding key_and_split_resolved [OF two_partitions_columns two_partitions_rows(2)]
      two_partitions_rows(4) key split_42_1_0 by (rule refl)
  from same a b show ?thesis by (intro conjI)
qed

text \<open>
  C2. For a frame that has the six service columns, \<open>compute_service_features\<close>
  returns a frame in which every row's \<open>num_optional_services\<close> is the number of
  those six columns whose cell is the text \<open>Yes\<close>; the number is between 0 and 6; a
  cell holding anything else, null included, adds nothing, and no such cell makes the
  function raise.
\<close>

theorem compute_service_features_count:
  assumes "set service_cols \<subseteq> set (columns df)" and "has_row df p k"
  shows "\<exists>df' n. compute_service_features df = Inr df' \<and> has_row df' p k
           \<and> row_at df' p k ''num_optional_services'' = Some (Num (real n))
           \<and> n = length (filter (\<lambda>c. cell_of (row_at df p k) c = Str ''Yes'') service_cols)
           \<and> n \<le> 6"
proof -
  let ?df' = "map_rows (\<lambda>r. r(''num_optional_services'' \<mapsto> num_optional_services (map (cell_of r) service_cols)))
            (df\<lparr>columns := add_column (columns df) ''num_optional_services'',
                metadata := (metadata df)(''num_optional_services'' := None)\<rparr>)"
  have 1: "compute_service_features df = Inr ?df'"
    unfolding compute_service_features_def using assms(1) by (rule withColumn_resolved)
  have 2: "has_row ?df' p k" using assms(2) by (simp add: has_row_def)
  have 3: "row_at ?df' p k = (row_at df p k)(''num_optional_services'' \<mapsto>
              num_optional_services (map (cell_of (row_at df p k)) service_cols))"
    using assms(2) by (simp add: has_row_def row_at_def)
  show ?thesis
    using 1 2 3 length_filter_service_cols
    by (simp add: num_optional_services_count filter_map comp_def)
qed

theorem compute_service_features_count_witness:
  "\<exists>df'. compute_service_features telcoDF = Inr df'
     \<and> row_at df' 0 0 ''num_optional_services'' = Some (Num 3)
     \<and> row_at df' 0 (Suc 0) ''num_optional_services'' = Some (Num 0)
     \<and> row_at df' (Suc 0) 0 ''num_optional_services'' = Some (Num 6)"
proof -
  from compute_service_features_count [OF telcoDF_service_cols telcoDF_rows(1)]
  obtain df' where ok: "compute_service_features telcoDF = Inr df'"
    and 1: "row_at df' 0 0 ''num_optional_services'' = Some (Num 3)"
    by (auto simp: telcoDF_rows customer_counts)
  from compute_service_features_count [OF telcoDF_service_cols telcoDF_rows(2)] ok
  have 2: "row_at df' 0 (Suc 0) ''num_optional_services'' = Some (Num 0)"
    by (auto simp: telcoDF_rows customer_counts)
  from compute_service_features_count [OF telcoDF_service_cols telcoDF_rows(3)] ok
  have 3: "row_at df' (Suc 0) 0 ''num_optional_services'' = Some (Num 6)"
    by (auto simp: telcoDF_rows customer_counts)
  from ok 1 2 3 show ?thesis by blast
qed






text \<open>
  C6. \<open>clean_churn_features\<close> turns a \<open>senior_citizen\<close> of 1 into the text \<open>Yes\<close>
  and of 0 into the text \<open>No\<close>, and every cell of the resulting column is a text or
  null, never a number.
\<close>

theorem clean_churn_features_senior_citizen:
  assumes "clean_churn_features cs df = Inr df'" and "has_row df p k"
  shows "(cell_of (row_at df p k) ''senior_citizen'' = Num 1
            \<longrightarrow> row_at df' p k ''senior_citizen'' = Some (Str ''Yes''))
     \<and> (cell_of (row_at df p k) ''senior_citizen'' = Num 0
            \<longrightarrow> row_at df' p k ''senior_citizen'' = Some (Str ''No''))
     \<and> (\<exists>c. row_at df' p k ''senior_citizen'' = Some c \<and> textual c)"
  by (auto simp add: clean_churn_features_rows(3) [OF assms] cleaned_row_senior map_value_def
      cast_cell_def textual_def split: cell.splits)

theorem clean_churn_features_senior_citizen_witness:
  "\<exists>df'. clean_churn_features parse_example featuredDF = Inr df'
     \<and> row_at df' 0 0 ''senior_citizen'' = Some (Str ''Yes'')
     \<and> row_at df' 0 (Suc 0) ''senior_citizen'' = Some (Str ''No'')"
proof -
  from featuredDF_cleaned obtain df' where ok: "clean_churn_features parse_example featuredDF = Inr df'"
    by blast
  from clean_churn_features_senior_citizen [OF ok featuredDF_rows(1)] clean_churn_features_senior_citizen [OF ok featuredDF_rows(2)] ok
  show ?thesis by (simp add: featuredDF_rows customer_billing)
qed

text \<open>
  C7. When the label table has been written and the three statements have run, the
  table has exactly the columns \<open>customer_id\<close>, \<open>transaction_ts\<close>, \<open>churn\<close> and
  \<open>split\<close> (no \<open>random\<close>), both key columns are NOT NULL, and the primary key is
  the pair of them; the frame handed to the feature store has no \<open>churn\<close> column and
  no row of it has a \<open>churn\<close> cell.
\<close>

theorem label_table_schema_and_constraints:
  assumes "write_label_table cfg df w = (Inr (), w1)"
    and "add_label_constraints cfg w1 = (Inr (), w2)"
  shows "\<exists>info. tables w2 (full_name cfg (advanced_label_table_name cfg)) = Some info
           \<and> t_columns info = [primary_key, timestamp_col, label_col, ''split'']
           \<and> ''random'' \<notin> set (t_columns info)
           \<and> primary_key \<in> set (t_not_null info) \<and> timestamp_col \<in> set (t_not_null info)
           \<and> t_primary_key info
               = Some (advanced_label_table_name cfg @ ''_pk'', [primary_key, timestamp_col])
           \<and> label_col \<notin> set (columns (churn_featuresDF df))
           \<and> (\<forall>p k. has_row (churn_featuresDF df) p k
                 \<longrightarrow> row_at (churn_featuresDF df) p k label_col = None)"
proof -
  let ?t = "full_name cfg (advanced_label_table_name cfg)"
  from write_label_table_Inr [OF assms(1)] obtain out where out: "label_table df = Inr out"
    and w1: "w1 = w\<lparr>tables := (tables w)
                 (?t \<mapsto> \<lparr>t_columns = columns out, t_rows = concat (partitions out),
                     t_not_null = [], t_primary_key = None\<rparr>)\<rparr>"
    by blast
  have cols: "columns out = [primary_key, timestamp_col, label_col, ''split'']"
    using out by (rule label_table_rows(1))
  from and_then_Inr [OF assms(2) [unfolded add_label_constraints_def]]
  obtain wa where a: "spark_sql (AlterColumnSetNotNull ?t primary_key) w1 = (Inr (), wa)"
    and rest: "and_then (spark_sql (AlterColumnSetNotNull ?t timestamp_col))
       (\<lambda>_. spark_sql (AddPrimaryKey ?t (advanced_label_table_name cfg @ ''_pk'')
                  [primary_key, timestamp_col])) wa = (Inr (), w2)"
    by auto
  from and_then_Inr [OF rest]
  obtain wb where b: "spark_sql (AlterColumnSetNotNull ?t timestamp_col) wa = (Inr (), wb)"
    and c: "spark_sql (AddPrimaryKey ?t (advanced_label_table_name cfg @ ''_pk'')
                  [primary_key, timestamp_col]) wb = (Inr (), w2)"
    by auto
  from add_primary_key_Inr [OF c] obtain ib where ib: "tables wb ?t = Some ib"
    and nn: "set [primary_key, timestamp_col] \<subseteq> set (t_not_null ib)"
    and w2: "w2 = wb\<lparr>tables := (tables wb) (?t \<mapsto> ib\<lparr>t_primary_key :=
                Some (advanced_label_table_name cfg @ ''_pk'', [primary_key, timestamp_col])\<rparr>)\<rparr>"
    by blast
  from set_not_null_Inr [OF a] w1 have wa: "tables wa ?t =
      Some \<lparr>t_columns = columns out, t_rows = concat (partitions out),
            t_not_null = [primary_key], t_primary_key = None\<rparr>"
    by (auto simp: add_column_def)
  from set_not_null_Inr [OF b] wa have "t_columns ib = columns out"
    using ib by auto
  then have 1: "tables w2 ?t = Some (ib\<lparr>t_primary_key :=
                Some (advanced_label_table_name cfg @ ''_pk'', [primary_key, timestamp_col])\<rparr>)"
    and 2: "t_columns ib = [primary_key, timestamp_col, label_col, ''split'']"
    by (simp_all add: w2 cols)
  have 3: "''random'' \<notin> set [primary_key, timestamp_col, label_col, ''split'']"
    by (simp add: primary_key_def timestamp_col_def label_col_def)
  have 4: "label_col \<notin> set (columns (churn_featuresDF df))"
    by (simp add: churn_featuresDF_def)
  have 5: "row_at (churn_featuresDF df) p k label_col = None" if "has_row (churn_featuresDF df) p k" for p k
    using that by (simp add: churn_featuresDF_def row_at_drop_col)
  show ?thesis using 1 2 3 4 5 nn by simp
qed

theorem label_table_schema_and_constraints_witness:
  "\<exists>w1 w2 info.
     write_label_table example_config one_partition empty_world = (Inr (), w1)
     \<and> add_label_constraints example_config w1 = (Inr (), w2)
     \<and> tables w2 ''main.dbdemos.churn_label_table'' = Some info
     \<and> t_columns info = [''customer_id'', ''transaction_ts'', ''churn'', ''split'']
     \<and> t_primary_key info = Some (''churn_label_table_pk'', [''customer_id'', ''transaction_ts''])
     \<and> ''churn'' \<notin> set (columns (churn_featuresDF one_partition))"
proof -
  from label_table_resolved [OF one_partition_columns]
  obtain out where out: "label_table one_partition = Inr out" by blast
  from label_constraints_succeed [OF out one_partition_keys, of example_config empty_world]
  obtain w1 w2 where w1: "write_label_table example_config one_partition empty_world = (Inr (), w1)"
    and w2: "add_label_constraints example_config w1 = (Inr (), w2)"
    by blast
  from label_table_schema_and_constraints [OF w1 w2] w1 w2 show ?thesis
    by (auto simp: example_config_def full_name_def primary_key_def timestamp_col_def label_col_def)
qed

text \<open>
  C8. In every state in which the online table is not known, the first pre-drop step
  ends normally and has printed the exception; in every state in which the feature
  table is not known, the second ends normally and has printed that the table does
  not exist. The first step, which catches every \<open>Exception\<close>, ends normally in
  every state.
\<close>

theorem pre_drop_tolerates_absence:
  "(full_name cfg feature_table_name @ ''_online_table'' \<notin> online_tables w \<longrightarrow>
      drop_online_table cfg w
        = (Inr (), w\<lparr>printed := printed w @ [full_name cfg feature_table_name @ ''_online_table'']\<rparr>))
   \<and> (full_name cfg feature_table_name \<notin> feature_tables w \<longrightarrow>
      drop_feature_table cfg w
        = (Inr (), w\<lparr>printed := printed w @ [''Feature Table '' @ full_name cfg feature_table_name
                                              @ '' doesn't exist'']\<rparr>))
   \<and> fst (drop_online_table cfg w) = Inr ()"
  by (simp add: drop_online_table_def drop_feature_table_def try_except_def and_then_def
      online_tables_get_def online_tables_delete_def fe_drop_table_def spark_sql_def
      print_line_def is_Exception_def is_ValueError_def error_text_def)

theorem pre_drop_tolerates_absence_witness:
  "drop_online_table example_config empty_world
     = (Inr (), empty_world\<lparr>printed := [''main.dbdemos.churn_feature_table_online_table'']\<rparr>)
   \<and> drop_feature_table example_config empty_world
     = (Inr (), empty_world\<lparr>printed :=
          [''Feature Table main.dbdemos.churn_feature_table doesn't exist'']\<rparr>)"
  using pre_drop_tolerates_absence [of example_config empty_world]
  by (simp add: empty_world_def example_config_def full_name_def feature_table_name_def)

text \<open>
  C9. For a frame that has the columns \<open>clean_churn_features\<close> needs, and a row whose
  \<open>senior_citizen\<close> is null or a number other than 0 and 1, the function returns a
  frame, and in it that row's \<open>senior_citizen\<close> is null: the dictionary maps such a
  value to null, the cast to string keeps a null, and no fill names the column.
\<close>

theorem clean_churn_features_unmapped_senior_null:
  assumes "set clean_columns \<subseteq> set (columns df)" and "has_row df p k"
    and "cell_of (row_at df p k) ''senior_citizen'' = Null
         \<or> (\<exists>x. cell_of (row_at df p k) ''senior_citizen'' = Num x \<and> x \<noteq> 0 \<and> x \<noteq> 1)"
  shows "\<exists>df'. clean_churn_features cs df = Inr df' \<and> has_row df' p k
           \<and> row_at df' p k ''senior_citizen'' = Some Null"
proof -
  from clean_churn_features_resolved [OF assms(1), of cs]
  obtain df' where ok: "clean_churn_features cs df = Inr df'" by blast
  have "row_at df' p k ''senior_citizen'' = Some Null"
    using assms(3)
    by (auto simp add: clean_churn_features_rows(3) [OF ok assms(2)] cleaned_row_senior
        map_value_def cast_cell_def)
  with ok assms(2) show ?thesis by (simp add: clean_churn_features_rows(2) [OF ok])
qed

theorem clean_churn_features_unmapped_senior_null_witness:
  "\<exists>df'. clean_churn_features parse_example featuredDF = Inr df'
     \<and> cell_of (row_at featuredDF (Suc 0) 0) ''senior_citizen'' = Num 2
     \<and> row_at df' (Suc 0) 0 ''senior_citizen'' = Some Null"
proof -
  have sc: "cell_of (row_at featuredDF (Suc 0) 0) ''senior_citizen'' = Num 2"
    by (simp add: featuredDF_rows customer_billing)
  then have "cell_of (row_at featuredDF (Suc 0) 0) ''senior_citizen'' = Null
         \<or> (\<exists>x. cell_of (row_at featuredDF (Suc 0) 0) ''senior_citizen'' = Num x \<and> x \<noteq> 0 \<and> x \<noteq> 1)"
    by simp
  from clean_churn_features_unmapped_senior_null [OF featuredDF_clean_columns featuredDF_rows(3) this, of parse_example] sc
  show ?thesis by blast
qed



end
